theory Spec2Isabelle
  imports Main
begin

section \<open>JavaScript values and the operations the translation code uses\<close>

text \<open>
  The values that the variables of \<^verbatim>\<open>LanguageContext.js\<close> and \<^verbatim>\<open>useLanguage.js\<close> hold:
  \<^verbatim>\<open>undefined\<close>, \<^verbatim>\<open>null\<close>, booleans, numbers (the integral ones, which is what a string's
  \<^verbatim>\<open>length\<close> and a year are), strings, objects written as literals (their own properties,
  in order, the first entry of a key being the property) and function objects of the
  host, known by name only. A string is a list of 8-bit characters, which holds the keys
  and the codes of the source; catalog text outside that range is not represented.
\<close>

datatype jsval =
    JUndefined
  | JNull
  | JBool bool
  | JNum int
  | JStr string
  | JObj "(string \<times> jsval) list"
  | JFun string

text \<open>
  A property read that finds no own property goes on to the prototype chain, which the
  host supplies and the source does not show. It is a parameter of the model: \<open>h v k\<close> is
  what the prototype chain of the value \<open>v\<close> gives for the key \<open>k\<close>.
\<close>

type_synonym host = "jsval \<Rightarrow> string \<Rightarrow> jsval"

text \<open>
  ECMAScript gives every object literal the methods of \<^verbatim>\<open>Object.prototype\<close>; a host that has
  these and nothing more is \<open>ecma_host\<close>.
\<close>

definition object_prototype :: "(string \<times> jsval) list" where
  "object_prototype =
     [(''constructor'', JFun ''Object''),
      (''hasOwnProperty'', JFun ''hasOwnProperty''),
      (''isPrototypeOf'', JFun ''isPrototypeOf''),
      (''propertyIsEnumerable'', JFun ''propertyIsEnumerable''),
      (''toLocaleString'', JFun ''toLocaleString''),
      (''toString'', JFun ''toString''),
      (''valueOf'', JFun ''valueOf'')]"

definition ecma_host :: host where
  "ecma_host v k = (case map_of object_prototype k of Some f \<Rightarrow> f | None \<Rightarrow> JUndefined)"

text \<open>\<^verbatim>\<open>!x\<close> is \<open>\<not> truthy x\<close>; \<^verbatim>\<open>a || b\<close> and \<^verbatim>\<open>a && b\<close> test the same.\<close>

fun truthy :: "jsval \<Rightarrow> bool" where
  "truthy JUndefined = False"
| "truthy JNull = False"
| "truthy (JBool b) = b"
| "truthy (JNum n) = (n \<noteq> 0)"
| "truthy (JStr s) = (s \<noteq> [])"
| "truthy (JObj ps) = True"
| "truthy (JFun f) = True"

text \<open>\<^verbatim>\<open>typeof x === 'string'\<close>\<close>

fun is_string :: "jsval \<Rightarrow> bool" where
  "is_string (JStr s) = True"
| "is_string v = False"

text \<open>\<^verbatim>\<open>s.split(c)\<close> for a one-character separator: always at least one piece.\<close>

fun split_on :: "char \<Rightarrow> string \<Rightarrow> string list" where
  "split_on c [] = [[]]"
| "split_on c (x # xs) =
     (if x = c then [] # split_on c xs
      else (case split_on c xs of [] \<Rightarrow> [[x]] | w # ws \<Rightarrow> (x # w) # ws))"

text \<open>
  A string has the own properties \<^verbatim>\<open>length\<close> and one per index, the key of an index being
  its decimal numeral without leading zeros.
\<close>

definition is_digit :: "char \<Rightarrow> bool" where
  "is_digit c = (c \<in> set ''0123456789'')"

definition digit_val :: "char \<Rightarrow> nat" where
  "digit_val c = of_char c - 48"

definition array_index :: "string \<Rightarrow> nat option" where
  "array_index k =
     (case k of
        [] \<Rightarrow> None
      | c # cs \<Rightarrow>
          if list_all is_digit k \<and> (if c = CHR ''0'' then cs = [] else True)
          then Some (foldl (\<lambda>n d. 10 * n + digit_val d) 0 k)
          else None)"

text \<open>\<^verbatim>\<open>o[k]\<close> on an object literal \<open>o\<close> with the own properties \<open>ps\<close>.\<close>

definition obj_get :: "host \<Rightarrow> (string \<times> jsval) list \<Rightarrow> string \<Rightarrow> jsval" where
  "obj_get h ps k = (case map_of ps k of Some v \<Rightarrow> v | None \<Rightarrow> h (JObj ps) k)"

text \<open>
  \<^verbatim>\<open>v?.[k]\<close>: \<^verbatim>\<open>undefined\<close> when \<open>v\<close> is \<^verbatim>\<open>undefined\<close> or \<^verbatim>\<open>null\<close>, the property \<open>k\<close> of \<open>v\<close>
  otherwise, whatever kind of value \<open>v\<close> is.
\<close>

fun opt_get :: "host \<Rightarrow> jsval \<Rightarrow> string \<Rightarrow> jsval" where
  "opt_get h JUndefined k = JUndefined"
| "opt_get h JNull k = JUndefined"
| "opt_get h (JObj ps) k = obj_get h ps k"
| "opt_get h (JStr s) k =
     (if k = ''length'' then JNum (int (length s))
      else (case array_index k of
              Some i \<Rightarrow> if i < length s then JStr [s ! i] else h (JStr s) k
            | None \<Rightarrow> h (JStr s) k))"
| "opt_get h v k = h v k"

text \<open>
  The loop \<^verbatim>\<open>for (const k of keys) { translation = translation?.[k]; }\<close> started with
  \<open>translation = root\<close>.
\<close>

definition traverse :: "host \<Rightarrow> jsval \<Rightarrow> string list \<Rightarrow> jsval" where
  "traverse h root keys = foldl (opt_get h) root keys"

text \<open>
  The conversion to a string that \<^verbatim>\<open>String.prototype.replace\<close> applies to what its callback
  returns. An object literal prints as \<^verbatim>\<open>[object Object]\<close> and a function of the host as
  its native-code text. A number prints in plain decimal, as JavaScript prints the integers
  below \<open>10\<^sup>2\<^sup>1\<close> in magnitude.
\<close>

function digits :: "nat \<Rightarrow> string" where
  "digits n = (if n < 10 then [''0123456789'' ! n] else digits (n div 10) @ [''0123456789'' ! (n mod 10)])"
  by pat_completeness auto
termination
  by (relation "measure id") auto

fun to_string :: "jsval \<Rightarrow> string" where
  "to_string JUndefined = ''undefined''"
| "to_string JNull = ''null''"
| "to_string (JBool b) = (if b then ''true'' else ''false'')"
| "to_string (JNum n) = (if n < 0 then CHR ''-'' # digits (nat (- n)) else digits (nat n))"
| "to_string (JStr s) = s"
| "to_string (JObj ps) = ''[object Object]''"
| "to_string (JFun f) = ''function '' @ f @ ''() { [native code] }''"

text \<open>
  The pattern \<^verbatim>\<open>/\{\{(\w+)\}\}/g\<close>. At one position it matches two opening braces, the longest
  non-empty run of word characters, and two closing braces; \<open>match_placeholder\<close> gives
  the captured name and the text after the match.
\<close>

definition word_char :: "char \<Rightarrow> bool" where
  "word_char c =
     (c \<in> set ''abcdefghijklmnopqrstuvwxyzABCDEFGHIJKLMNOPQRSTUVWXYZ0123456789_'')"

definition match_placeholder :: "string \<Rightarrow> (string \<times> string) option" where
  "match_placeholder s =
     (if take 2 s = ''{{'' then
        (let name = takeWhile word_char (drop 2 s);
             rest = dropWhile word_char (drop 2 s)
         in if name \<noteq> [] \<and> take 2 rest = ''}}'' then Some (name, drop 2 rest) else None)
      else None)"

text \<open>
  \<^verbatim>\<open>s.replace(/\{\{(\w+)\}\}/g, f)\<close>: the matches are found from left to right and do not overlap;
  \<open>f match param\<close> is the replacement, already converted to a string.
\<close>

function replace_placeholders :: "(string \<Rightarrow> string \<Rightarrow> string) \<Rightarrow> string \<Rightarrow> string" where
  "replace_placeholders f [] = []"
| "replace_placeholders f (c # cs) =
     (case match_placeholder (c # cs) of
        Some (name, rest) \<Rightarrow> f (''{{'' @ name @ ''}}'') name @ replace_placeholders f rest
      | None \<Rightarrow> c # replace_placeholders f cs)"
  by pat_completeness auto
termination
proof (relation "measure (\<lambda>(f, s). length s)")
  show "wf (measure (\<lambda>(f :: string \<Rightarrow> string \<Rightarrow> string, s :: string). length s))"
    by simp
next
  fix f :: "string \<Rightarrow> string \<Rightarrow> string" and c :: char and cs name rest :: string
    and x2 :: "string \<times> string"
  assume "match_placeholder (c # cs) = Some x2" and "(name, rest) = x2"
  then have m: "match_placeholder (c # cs) = Some (name, rest)"
    by simp
  have r: "rest = drop 2 (dropWhile word_char (drop 2 (c # cs)))"
    using m by (auto simp: match_placeholder_def Let_def split: if_splits)
  have "length (dropWhile word_char (drop 2 (c # cs))) \<le> length (drop 2 (c # cs))"
    by (rule length_dropWhile_le)
  then have "length rest < length (c # cs)"
    unfolding r by simp
  then show "((f, rest), (f, c # cs)) \<in> measure (\<lambda>(f, s). length s)"
    by simp
next
  fix f :: "string \<Rightarrow> string \<Rightarrow> string" and c :: char and cs :: string
  show "((f, cs), (f, c # cs)) \<in> measure (\<lambda>(f, s). length s)"
    by simp
qed

section \<open>The translation function\<close>

text \<open>
  \<^verbatim>\<open>t(key, params = {})\<close> of \<^verbatim>\<open>LanguageProvider\<close>. The module constant \<^verbatim>\<open>translations\<close> (an object
  literal with one catalog per locale code) and the state \<^verbatim>\<open>currentLanguage\<close> of the
  provider are arguments; \<open>params\<close> are the own properties of the parameter object, \<open>[]\<close>
  when the caller leaves it out. \<open>substitute h params\<close> is the callback given to
  \<^verbatim>\<open>replace\<close>, \<^verbatim>\<open>(match, param) => params[param] || match\<close>, with the conversion of its result to
  a string.
\<close>

definition substitute :: "host \<Rightarrow> (string \<times> jsval) list \<Rightarrow> string \<Rightarrow> string \<Rightarrow> string" where
  "substitute h params match param =
     to_string (let p = obj_get h params param in if truthy p then p else JStr match)"

definition t :: "host \<Rightarrow> (string \<times> jsval) list \<Rightarrow> string \<Rightarrow> string \<Rightarrow> (string \<times> jsval) list \<Rightarrow> jsval" where
  "t h translations currentLanguage key params =
     (let keys = split_on CHR ''.'' key;
          translation = traverse h (obj_get h translations currentLanguage) keys;
          translation =
            (if \<not> truthy translation
             then traverse h (obj_get h translations ''en'') keys
             else translation)
      in if \<not> truthy translation then JStr key
         else (case translation of
                 JStr s \<Rightarrow>
                   if length params > 0
                   then JStr (replace_placeholders (substitute h params) s)
                   else translation
               | _ \<Rightarrow> translation))"

text \<open>
  The value of the variable \<^verbatim>\<open>translation\<close> when the two lookups are over and it is truthy
  (the source's line 40 then goes on with it): the candidate that \<open>t\<close> returns or
  interpolates. \<open>None\<close> when \<open>t\<close> takes the final fallback to the key.
\<close>

definition candidate :: "host \<Rightarrow> (string \<times> jsval) list \<Rightarrow> string \<Rightarrow> string \<Rightarrow> jsval option" where
  "candidate h translations currentLanguage key =
     (let keys = split_on CHR ''.'' key;
          active = traverse h (obj_get h translations currentLanguage) keys;
          english = traverse h (obj_get h translations ''en'') keys
      in if truthy active then Some active
         else if truthy english then Some english
         else None)"

text \<open>The source's lines 45 to 51, applied to a candidate.\<close>

definition interpolate :: "host \<Rightarrow> (string \<times> jsval) list \<Rightarrow> jsval \<Rightarrow> jsval" where
  "interpolate h params v =
     (case v of
        JStr s \<Rightarrow> if length params > 0 then JStr (replace_placeholders (substitute h params) s) else v
      | _ \<Rightarrow> v)"

section \<open>Property reads that throw\<close>











section \<open>The language hook\<close>

text \<open>
  \<^verbatim>\<open>SUPPORTED_LANGUAGES\<close>: one entry per code. The display name and the flag of an entry are
  text outside ASCII that no operation here reads; an entry is kept with its \<^verbatim>\<open>code\<close>.
\<close>

definition SUPPORTED_LANGUAGES :: "(string \<times> jsval) list" where
  "SUPPORTED_LANGUAGES =
     [(''en'', JObj [(''code'', JStr ''en'')]),
      (''tr'', JObj [(''code'', JStr ''tr'')]),
      (''ar'', JObj [(''code'', JStr ''ar'')]),
      (''it'', JObj [(''code'', JStr ''it'')])]"

definition DEFAULT_LANGUAGE :: string where
  "DEFAULT_LANGUAGE = ''en''"

definition STORAGE_KEY :: string where
  "STORAGE_KEY = ''preferred-language''"

text \<open>
  What the hook reads and writes: its state \<^verbatim>\<open>currentLanguage\<close>, \<^verbatim>\<open>localStorage\<close>, and the
  attributes \<^verbatim>\<open>lang\<close> and \<^verbatim>\<open>dir\<close> of \<^verbatim>\<open>document.documentElement\<close>.
\<close>

record page =
  currentLanguage :: string
  localStorage :: "string \<rightharpoonup> string"
  lang :: string
  dir :: string

text \<open>
  The initialiser passed to \<^verbatim>\<open>useState\<close>. \<open>saved\<close> is \<^verbatim>\<open>localStorage.getItem(STORAGE_KEY)\<close>,
  \<open>None\<close> for \<^verbatim>\<open>null\<close>; \<open>browser\<close> is \<^verbatim>\<open>navigator.language\<close>.
\<close>

definition initialLanguage :: "host \<Rightarrow> string option \<Rightarrow> string \<Rightarrow> string" where
  "initialLanguage h saved browser =
     (let browserLanguage = hd (split_on CHR ''-'' browser);
          fromBrowser =
            (if truthy (obj_get h SUPPORTED_LANGUAGES browserLanguage)
             then browserLanguage else DEFAULT_LANGUAGE)
      in case saved of
           None \<Rightarrow> fromBrowser
         | Some savedLanguage \<Rightarrow>
             if truthy (JStr savedLanguage) \<and> truthy (obj_get h SUPPORTED_LANGUAGES savedLanguage)
             then savedLanguage
             else fromBrowser)"

text \<open>The body of the effect, which React runs with the current state.\<close>

definition persist :: "page \<Rightarrow> page" where
  "persist p =
     p\<lparr>localStorage := (localStorage p)(STORAGE_KEY \<mapsto> currentLanguage p),
       lang := currentLanguage p,
       dir := (if currentLanguage p = ''ar'' then ''rtl'' else ''ltr'')\<rparr>"

text \<open>
  The first render initialises the state from the storage and the browser; the storage and
  the document are as before. \<open>p\<close> is the page before, whose state field is not read.
\<close>

definition first_render :: "host \<Rightarrow> string \<Rightarrow> page \<Rightarrow> page" where
  "first_render h browser p =
     p\<lparr>currentLanguage := initialLanguage h (localStorage p STORAGE_KEY) browser\<rparr>"

text \<open>Mounting: the first render, and after it the effect.\<close>

definition mount :: "host \<Rightarrow> string \<Rightarrow> page \<Rightarrow> page" where
  "mount h browser p = persist (first_render h browser p)"

text \<open>
  \<^verbatim>\<open>switchLanguage(languageCode)\<close>: the guarded \<^verbatim>\<open>setCurrentLanguage\<close>, as the new value of the
  state.
\<close>

definition switchLanguage :: "host \<Rightarrow> string \<Rightarrow> string \<Rightarrow> string" where
  "switchLanguage h languageCode current =
     (if truthy (obj_get h SUPPORTED_LANGUAGES languageCode) then languageCode else current)"

text \<open>
  A call of \<^verbatim>\<open>switchLanguage\<close> on the page, up to the render with the new state: the state
  has its new value, and the effect has not run yet, so the storage and the document are
  as before.
\<close>

definition update :: "host \<Rightarrow> string \<Rightarrow> page \<Rightarrow> page" where
  "update h languageCode p =
     p\<lparr>currentLanguage := switchLanguage h languageCode (currentLanguage p)\<rparr>"

text \<open>
  The call with what React does after it. The effect depends on \<^verbatim>\<open>[currentLanguage]\<close>: React
  runs it after the render when the state has changed, and not otherwise.
\<close>

definition switch :: "host \<Rightarrow> string \<Rightarrow> page \<Rightarrow> page" where
  "switch h languageCode p =
     (let q = update h languageCode p
      in if currentLanguage q = currentLanguage p then p else persist q)"

text \<open>A session: the first render, then the calls of \<^verbatim>\<open>switchLanguage\<close> in order.\<close>

definition session :: "host \<Rightarrow> string \<Rightarrow> page \<Rightarrow> string list \<Rightarrow> page" where
  "session h browser p codes = foldl (\<lambda>q c. switch h c q) (mount h browser p) codes"

text \<open>The page of a first visit: nothing stored, no attribute set.\<close>

definition fresh :: page where
  "fresh = \<lparr>currentLanguage = [], localStorage = Map.empty, lang = [], dir = []\<rparr>"

text \<open>The side effects of the hook, as a property of a page.\<close>

definition applied :: "page \<Rightarrow> bool" where
  "applied p =
     (localStorage p STORAGE_KEY = Some (currentLanguage p)
      \<and> lang p = currentLanguage p
      \<and> dir p = (if currentLanguage p = ''ar'' then ''rtl'' else ''ltr''))"

text \<open>The codes of the registry: the keys of \<^verbatim>\<open>SUPPORTED_LANGUAGES\<close>.\<close>

definition registered :: "string \<Rightarrow> bool" where
  "registered c = (map_of SUPPORTED_LANGUAGES c \<noteq> None)"

section \<open>Templates\<close>

text \<open>
  The specification speaks of a string with placeholder tokens. Such a string is given by
  its pieces: literal text and placeholders. \<open>template\<close> is the string as the catalog has
  it, and \<open>fill\<close> is the string the specification describes for it, amended: a placeholder
  is replaced by the string of the value that \<open>params\<close> has for its name when that value
  is truthy, and stays as it is otherwise.
\<close>

datatype piece = Lit string | Hole string

fun source_text :: "piece \<Rightarrow> string" where
  "source_text (Lit s) = s"
| "source_text (Hole n) = ''{{'' @ n @ ''}}''"

definition template :: "piece list \<Rightarrow> string" where
  "template ps = concat (map source_text ps)"

fun filled :: "(string \<times> jsval) list \<Rightarrow> piece \<Rightarrow> string" where
  "filled params (Lit s) = s"
| "filled params (Hole n) =
     (case map_of params n of
        Some v \<Rightarrow> if truthy v then to_string v else ''{{'' @ n @ ''}}''
      | None \<Rightarrow> ''{{'' @ n @ ''}}'')"

definition fill :: "(string \<times> jsval) list \<Rightarrow> piece list \<Rightarrow> string" where
  "fill params ps = concat (map (filled params) ps)"

text \<open>
  The literal text of a template has no opening brace, and the name of a placeholder is
  a non-empty run of word characters.
\<close>

fun well_formed :: "piece \<Rightarrow> bool" where
  "well_formed (Lit s) = list_all (\<lambda>c. c \<noteq> CHR ''{'') s"
| "well_formed (Hole n) = (n \<noteq> [] \<and> list_all word_char n)"

text \<open>
  A placeholder whose name is no own property of \<open>params\<close> names no truthy property that
  \<open>params\<close> inherits from the host either.
\<close>

fun own_or_missing :: "host \<Rightarrow> (string \<times> jsval) list \<Rightarrow> piece \<Rightarrow> bool" where
  "own_or_missing h params (Lit s) = True"
| "own_or_missing h params (Hole n) =
     (case map_of params n of Some v \<Rightarrow> True | None \<Rightarrow> \<not> truthy (h (JObj params) n))"

text \<open>A fragment of the catalogs of the repository, for the examples.\<close>

definition sample :: "(string \<times> jsval) list" where
  "sample =
     [(''en'', JObj [(''nav'', JObj [(''home'', JStr ''Home''), (''blog'', JStr ''Blog'')]),
                     (''footer'', JObj [(''copyright'', JStr ''{{year}} Serhat Soysal. All rights reserved.'')])]),
      (''tr'', JObj [(''nav'', JObj [(''home'', JStr ''Ana Sayfa'')])])]"

section \<open>Traversal\<close>

lemma traverse_Nil: "traverse h root [] = root"
  by (simp add: traverse_def)

lemma traverse_snoc: "traverse h root (ks @ [k]) = opt_get h (traverse h root ks) k"
  by (simp add: traverse_def)

lemma traverse_append: "traverse h root (ks @ ks') = traverse h (traverse h root ks) ks'"
  by (simp add: traverse_def)

lemma traverse_undefined: "traverse h JUndefined ks = JUndefined"
  by (induction ks) (simp_all add: traverse_def)

lemma traverse_null: "ks \<noteq> [] \<Longrightarrow> traverse h JNull ks = JUndefined"
proof (cases ks)
  case Nil
  assume "ks \<noteq> []"
  with Nil show ?thesis by simp
next
  case (Cons k ks')
  have "traverse h JNull (k # ks') = traverse h JUndefined ks'"
    by (simp add: traverse_def)
  with Cons show ?thesis
    by (simp add: traverse_undefined)
qed

lemma traverse_absent:
  assumes "n < length ks"
    and "traverse h root (take n ks) = JUndefined \<or> traverse h root (take n ks) = JNull"
  shows "traverse h root ks = JUndefined"
proof -
  have "traverse h root ks = traverse h (traverse h root (take n ks)) (drop n ks)"
    by (metis append_take_drop_id traverse_append)
  moreover have "drop n ks \<noteq> []"
    using assms(1) by simp
  ultimately show ?thesis
    using assms(2) by (auto simp: traverse_undefined traverse_null)
qed

lemma split_on_not_Nil: "split_on c s \<noteq> []"
  by (induction s) (simp_all split: list.splits)

section \<open>The candidate and the result\<close>

lemma t_candidate:
  "t h translations cur key params =
     (case candidate h translations cur key of
        None \<Rightarrow> JStr key
      | Some v \<Rightarrow> interpolate h params v)"
  by (simp add: t_def candidate_def interpolate_def Let_def)


lemma interpolate_no_params: "interpolate h [] v = v"
  by (cases v) (simp_all add: interpolate_def)

lemma interpolate_non_string: "\<not> is_string v \<Longrightarrow> interpolate h params v = v"
  by (cases v) (simp_all add: interpolate_def)

section \<open>The fallback order\<close>

text \<open>
  C1, as stated, at a catalog whose English entry for \<^verbatim>\<open>nav.home\<close> is the empty string: the
  active catalog has no entry, the traversal of the English catalog yields the empty
  string, and the result is the key path, not that value.
\<close>

theorem t_english_empty_counterexample:
  "traverse ecma_host
     (obj_get ecma_host [(''en'', JObj [(''nav'', JObj [(''home'', JStr [])])]), (''tr'', JObj [])] ''tr'')
     (split_on CHR ''.'' ''nav.home'') = JUndefined
   \<and> traverse ecma_host
     (obj_get ecma_host [(''en'', JObj [(''nav'', JObj [(''home'', JStr [])])]), (''tr'', JObj [])] ''en'')
     (split_on CHR ''.'' ''nav.home'') = JStr []
   \<and> t ecma_host [(''en'', JObj [(''nav'', JObj [(''home'', JStr [])])]), (''tr'', JObj [])]
       ''tr'' ''nav.home'' [] = JStr ''nav.home''"
  by (simp add: t_def traverse_def obj_get_def ecma_host_def object_prototype_def)

text \<open>
  C1, amended: when the traversal of the active locale's catalog yields absent, the same
  traversal is made in the English catalog; its value, when truthy, is the candidate
  (returned as it is, or interpolated when it is a string and \<open>params\<close> is not empty); when
  it is absent or falsy in another way (the empty string, \<open>0\<close>, \<open>false\<close>, \<open>null\<close>), the result
  is the key path, unchanged.
\<close>

theorem t_fallback_order:
  assumes "traverse h (obj_get h translations cur) (split_on CHR ''.'' key) = JUndefined"
  shows "t h translations cur key params =
           (let english = traverse h (obj_get h translations ''en'') (split_on CHR ''.'' key)
            in if truthy english then interpolate h params english else JStr key)"
  using assms by (simp add: t_candidate candidate_def Let_def)

theorem t_fallback_order_witness:
  "t ecma_host sample ''tr'' ''nav.blog'' [] = JStr ''Blog''
   \<and> t ecma_host sample ''tr'' ''nav.about'' [] = JStr ''nav.about''"
proof -
  have a: "traverse ecma_host (obj_get ecma_host sample ''tr'') (split_on CHR ''.'' ''nav.blog'') = JUndefined"
    by (simp add: sample_def traverse_def obj_get_def ecma_host_def object_prototype_def)
  have b: "traverse ecma_host (obj_get ecma_host sample ''tr'') (split_on CHR ''.'' ''nav.about'') = JUndefined"
    by (simp add: sample_def traverse_def obj_get_def ecma_host_def object_prototype_def)
  show ?thesis
    using t_fallback_order [OF a, of "[]"] t_fallback_order [OF b, of "[]"]
    by (simp add: sample_def traverse_def obj_get_def ecma_host_def object_prototype_def interpolate_def)
qed

section \<open>Resolution in one locale\<close>

text \<open>
  C2, as stated, at the key path \<^verbatim>\<open>nav.home.0\<close>: the value reached after \<^verbatim>\<open>nav.home\<close> is the
  string \<^verbatim>\<open>Home\<close>, which is no mapping; the traversal goes on into it and yields its first
  character, which \<open>t\<close> returns, where the claim has the resolution yield absent.
\<close>

theorem traverse_string_counterexample:
  "traverse ecma_host (obj_get ecma_host sample ''en'') [''nav'', ''home''] = JStr ''Home''
   \<and> traverse ecma_host (obj_get ecma_host sample ''en'') (split_on CHR ''.'' ''nav.home.0'') = JStr ''H''
   \<and> t ecma_host sample ''en'' ''nav.home.0'' [] = JStr ''H''"
  by (simp add: t_def sample_def traverse_def obj_get_def array_index_def is_digit_def digit_val_def)

lemma array_index_length: "array_index ''length'' = None"
  by (simp add: array_index_def is_digit_def)

lemma string_index_read:
  assumes "array_index j = Some i" and "i < length s"
  shows "traverse h (JStr s) [j] = JStr [s ! i]"
proof -
  have "j \<noteq> ''length''"
    using assms(1) array_index_length by auto
  with assms show ?thesis
    by (simp add: traverse_def)
qed

text \<open>
  C2, amended: the resolution in one locale descends from the catalog root one segment
  at a time, by a property read; once the current value is absent (\<^verbatim>\<open>undefined\<close> or \<^verbatim>\<open>null\<close>)
  and a segment is left, the resolution yields absent, and nothing is thrown; a string is
  read like any other value (its \<^verbatim>\<open>length\<close> and its characters by index are properties of
  it); and a truthy value of the active locale's traversal is the candidate.
\<close>

theorem resolution_per_locale:
  "traverse h root [] = root
   \<and> traverse h root (ks @ [k]) = opt_get h (traverse h root ks) k
   \<and> (n < length ks \<and> (traverse h root (take n ks) = JUndefined \<or> traverse h root (take n ks) = JNull)
        \<longrightarrow> traverse h root ks = JUndefined)
   \<and> traverse h (JStr s) [''length''] = JNum (int (length s))
   \<and> (array_index j = Some i \<and> i < length s \<longrightarrow> traverse h (JStr s) [j] = JStr [s ! i])
   \<and> (truthy (traverse h (obj_get h translations cur) (split_on CHR ''.'' key))
        \<longrightarrow> candidate h translations cur key
            = Some (traverse h (obj_get h translations cur) (split_on CHR ''.'' key)))"
proof -
  have "traverse h (JStr s) [''length''] = JNum (int (length s))"
    by (simp add: traverse_def)
  moreover have "array_index j = Some i \<and> i < length s \<longrightarrow> traverse h (JStr s) [j] = JStr [s ! i]"
    by (simp add: string_index_read)
  moreover have "truthy (traverse h (obj_get h translations cur) (split_on CHR ''.'' key))
        \<longrightarrow> candidate h translations cur key
            = Some (traverse h (obj_get h translations cur) (split_on CHR ''.'' key))"
    by (simp add: candidate_def Let_def)
  ultimately show ?thesis
    using traverse_absent [of n ks h root] by (simp add: traverse_Nil traverse_snoc)
qed

theorem resolution_per_locale_witness:
  "traverse ecma_host (obj_get ecma_host sample ''tr'') [''nav'', ''blog'', ''title''] = JUndefined
   \<and> traverse ecma_host (JStr ''Home'') [''2''] = JStr ''m''
   \<and> candidate ecma_host sample ''tr'' ''nav.home'' = Some (JStr ''Ana Sayfa'')"
proof -
  have a: "array_index ''2'' = Some 2"
    by (simp add: array_index_def is_digit_def digit_val_def)
  show ?thesis
    using resolution_per_locale [of ecma_host "obj_get ecma_host sample ''tr''"
        "[''nav'', ''blog'', ''title'']" "''title''" 2 "''Home''" "''2''" 2 sample "''tr''" "''nav.home''"] a
    by (simp add: sample_def traverse_def obj_get_def ecma_host_def object_prototype_def)
qed

section \<open>Values that are not strings\<close>

text \<open>
  C7, as stated, at a catalog whose English entry for \<^verbatim>\<open>z\<close> is the number \<open>0\<close>: the key path
  resolves to a value that is not a string, and \<open>t\<close> does not return that value but the key
  path.
\<close>

theorem t_falsy_non_string_counterexample:
  "traverse ecma_host (obj_get ecma_host [(''en'', JObj [(''z'', JNum 0)])] ''en'')
     (split_on CHR ''.'' ''z'') = JNum 0
   \<and> \<not> is_string (JNum 0)
   \<and> t ecma_host [(''en'', JObj [(''z'', JNum 0)])] ''en'' ''z'' [(''year'', JNum 2024)] = JStr ''z''"
  by (simp add: t_def traverse_def obj_get_def)

text \<open>
  C7, amended: let \<open>a\<close> be the value of the traversal of the active catalog and \<open>e\<close> that of
  the English catalog. When \<open>a\<close> is truthy and not a string (a nested mapping, a number other
  than \<open>0\<close>), \<open>t\<close> returns \<open>a\<close> as it is, whatever \<open>params\<close> holds; when \<open>a\<close> is falsy and \<open>e\<close> is
  truthy and not a string, \<open>t\<close> returns \<open>e\<close> as it is; a value that is falsy (\<open>0\<close>, \<open>false\<close>,
  \<open>null\<close>) is never returned: when \<open>a\<close> and \<open>e\<close> are both falsy, \<open>t\<close> returns the key path.
\<close>

theorem t_truthy_non_string:
  assumes "traverse h (obj_get h translations cur) (split_on CHR ''.'' key) = a"
    and "traverse h (obj_get h translations ''en'') (split_on CHR ''.'' key) = e"
  shows "(truthy a \<and> \<not> is_string a \<longrightarrow> t h translations cur key params = a)
         \<and> (\<not> truthy a \<and> truthy e \<and> \<not> is_string e \<longrightarrow> t h translations cur key params = e)
         \<and> (\<not> truthy a \<and> \<not> truthy e \<longrightarrow> t h translations cur key params = JStr key)"
  using assms by (auto simp: t_candidate candidate_def Let_def interpolate_non_string)

theorem t_truthy_non_string_witness:
  "t ecma_host sample ''tr'' ''nav'' [(''year'', JNum 2024)] = JObj [(''home'', JStr ''Ana Sayfa'')]
   \<and> t ecma_host sample ''tr'' ''footer'' [(''year'', JNum 2024)]
       = JObj [(''copyright'', JStr ''{{year}} Serhat Soysal. All rights reserved.'')]
   \<and> t ecma_host [(''en'', JObj [(''z'', JNum 0)])] ''en'' ''z'' [(''year'', JNum 2024)] = JStr ''z''"
proof -
  have a1: "traverse ecma_host (obj_get ecma_host sample ''tr'') (split_on CHR ''.'' ''nav'')
            = JObj [(''home'', JStr ''Ana Sayfa'')]"
    by (simp add: sample_def traverse_def obj_get_def)
  have a2: "traverse ecma_host (obj_get ecma_host sample ''tr'') (split_on CHR ''.'' ''footer'')
            = JUndefined"
    by (simp add: sample_def traverse_def obj_get_def ecma_host_def object_prototype_def)
  have e2: "traverse ecma_host (obj_get ecma_host sample ''en'') (split_on CHR ''.'' ''footer'')
            = JObj [(''copyright'', JStr ''{{year}} Serhat Soysal. All rights reserved.'')]"
    by (simp add: sample_def traverse_def obj_get_def)
  have a3: "traverse ecma_host (obj_get ecma_host [(''en'', JObj [(''z'', JNum 0)])] ''en'')
              (split_on CHR ''.'' ''z'') = JNum 0"
    by (simp add: traverse_def obj_get_def)
  show ?thesis
    using t_truthy_non_string [OF a1 refl, of "[(''year'', JNum 2024)]"]
      t_truthy_non_string [OF a2 e2, of "[(''year'', JNum 2024)]"]
      t_truthy_non_string [OF a3 a3, of "[(''year'', JNum 2024)]"]
    by simp
qed

section \<open>Interpolation\<close>

lemma word_char_brace: "\<not> word_char CHR ''}''"
  by (simp add: word_char_def)

lemma match_placeholder_hole:
  assumes "n \<noteq> []" and "list_all word_char n"
  shows "match_placeholder (''{{'' @ n @ ''}}'' @ rest) = Some (n, rest)"
proof -
  have all: "\<And>x. x \<in> set n \<Longrightarrow> word_char x"
    using assms(2) by (simp add: list_all_iff)
  have tw: "takeWhile word_char (n @ CHR ''}'' # CHR ''}'' # rest) = n"
    using all by (simp add: word_char_brace)
  have dw: "dropWhile word_char (n @ CHR ''}'' # CHR ''}'' # rest) = CHR ''}'' # CHR ''}'' # rest"
    using all by (simp add: word_char_brace)
  show ?thesis
    using assms(1) by (simp add: match_placeholder_def tw dw)
qed

lemma match_placeholder_other: "c \<noteq> CHR ''{'' \<Longrightarrow> match_placeholder (c # cs) = None"
  by (cases cs) (simp_all add: match_placeholder_def)

lemma replace_literal:
  "list_all (\<lambda>c. c \<noteq> CHR ''{'') s
   \<Longrightarrow> replace_placeholders f (s @ rest) = s @ replace_placeholders f rest"
  by (induction s) (simp_all add: match_placeholder_other)

lemma replace_hole:
  assumes "n \<noteq> []" and "list_all word_char n"
  shows "replace_placeholders f (''{{'' @ n @ ''}}'' @ rest)
         = f (''{{'' @ n @ ''}}'') n @ replace_placeholders f rest"
proof -
  obtain cs where cs: "''{{'' @ n @ ''}}'' @ rest = CHR ''{'' # cs"
    by simp
  have "match_placeholder (CHR ''{'' # cs) = Some (n, rest)"
    using match_placeholder_hole [OF assms, of rest] cs by simp
  then have "replace_placeholders f (CHR ''{'' # cs)
             = f (''{{'' @ n @ ''}}'') n @ replace_placeholders f rest"
    by (simp only: replace_placeholders.simps option.case prod.case)
  then show ?thesis
    using cs by simp
qed

lemma substitute_filled:
  "own_or_missing h params (Hole n)
   \<Longrightarrow> substitute h params (''{{'' @ n @ ''}}'') n = filled params (Hole n)"
  by (auto simp: substitute_def obj_get_def Let_def split: option.splits)

lemma replace_template:
  assumes "list_all well_formed ps" and "list_all (own_or_missing h params) ps"
  shows "replace_placeholders (substitute h params) (template ps @ rest)
         = fill params ps @ replace_placeholders (substitute h params) rest"
  using assms
proof (induction ps)
  case Nil
  then show ?case by (simp add: template_def fill_def)
next
  case (Cons p ps)
  then have ih: "replace_placeholders (substitute h params) (template ps @ rest)
         = fill params ps @ replace_placeholders (substitute h params) rest"
    by simp
  show ?case
  proof (cases p)
    case (Lit s)
    with Cons.prems have "list_all (\<lambda>c. c \<noteq> CHR ''{'') s" by simp
    then have "replace_placeholders (substitute h params) (s @ template ps @ rest)
               = s @ replace_placeholders (substitute h params) (template ps @ rest)"
      by (rule replace_literal)
    with ih Lit show ?thesis
      by (simp add: template_def fill_def)
  next
    case (Hole n)
    with Cons.prems have n: "n \<noteq> []" "list_all word_char n"
      and o: "own_or_missing h params (Hole n)"
      by simp_all
    have "replace_placeholders (substitute h params) (''{{'' @ n @ ''}}'' @ template ps @ rest)
          = substitute h params (''{{'' @ n @ ''}}'') n
            @ replace_placeholders (substitute h params) (template ps @ rest)"
      by (rule replace_hole [OF n])
    with ih Hole substitute_filled [OF o] show ?thesis
      by (simp add: template_def fill_def)
  qed
qed

lemma replace_whole_template:
  assumes "list_all well_formed ps" and "list_all (own_or_missing h params) ps"
  shows "replace_placeholders (substitute h params) (template ps) = fill params ps"
  using replace_template [OF assms, of "[]"] by simp

text \<open>
  What the code does with a template. Let the resolved candidate be a string made of literal
  text and placeholders \<^verbatim>\<open>{{name}}\<close>. With an empty \<open>params\<close> the string is returned as it is,
  placeholders included. With a non-empty \<open>params\<close>, every placeholder whose name has a
  truthy value in \<open>params\<close> is replaced by that value, as a string; every placeholder whose
  name is absent from \<open>params\<close>, or has a falsy value there, stays as it is.
\<close>

lemma t_interpolation:
  assumes "candidate h translations cur key = Some (JStr (template ps))"
    and "list_all well_formed ps"
    and "list_all (own_or_missing h params) ps"
  shows "t h translations cur key [] = JStr (template ps)
         \<and> (params \<noteq> [] \<longrightarrow> t h translations cur key params = JStr (fill params ps))"
  using assms(1) replace_whole_template [OF assms(2,3)]
  by (simp add: t_candidate interpolate_def)

lemma t_interpolation_example:
  "t ecma_host
     [(''en'', JObj [(''greeting'', JStr ''Hello {{name}}, it is {{year}}. {{sign}}'')])]
     ''en'' ''greeting'' [(''name'', JStr ''Ada''), (''year'', JNum 2024)]
   = JStr ''Hello Ada, it is 2024. {{sign}}''"
proof -
  let ?ps = "[Lit ''Hello '', Hole ''name'', Lit '', it is '', Hole ''year'', Lit ''. '', Hole ''sign'']"
  let ?params = "[(''name'', JStr ''Ada''), (''year'', JNum 2024)]"
  have c: "candidate ecma_host
             [(''en'', JObj [(''greeting'', JStr ''Hello {{name}}, it is {{year}}. {{sign}}'')])]
             ''en'' ''greeting'' = Some (JStr (template ?ps))"
    by (simp add: candidate_def traverse_def obj_get_def template_def)
  have w: "list_all well_formed ?ps"
    by (simp add: word_char_def)
  have o: "list_all (own_or_missing ecma_host ?params) ?ps"
    by (simp add: ecma_host_def object_prototype_def)
  have d: "digits 2024 = ''2024''"
    by code_simp
  show ?thesis
    using t_interpolation [OF c w o] by (simp add: fill_def d)
qed

text \<open>
  C3 at \<^verbatim>\<open>t('footer.copyright', {year: ''})\<close> and at \<^verbatim>\<open>t('footer.copyright', {year: 0})\<close>: the
  name \<^verbatim>\<open>year\<close> exists in \<open>params\<close>, and the placeholder is not replaced by its value but left
  as it is, where the claim has it replaced whenever the name exists in \<open>params\<close>.
\<close>

theorem placeholder_falsy_value:
  "map_of [(''year'', JStr [])] ''year'' = Some (JStr [])
   \<and> t ecma_host sample ''en'' ''footer.copyright'' [(''year'', JStr [])]
       = JStr ''{{year}} Serhat Soysal. All rights reserved.''
   \<and> map_of [(''year'', JNum 0)] ''year'' = Some (JNum 0)
   \<and> t ecma_host sample ''en'' ''footer.copyright'' [(''year'', JNum 0)]
       = JStr ''{{year}} Serhat Soysal. All rights reserved.''"
  by (simp add: t_def sample_def traverse_def obj_get_def substitute_def match_placeholder_def
      word_char_def)

section \<open>Totality\<close>


















section \<open>The registry guard\<close>

lemma registered_codes: "registered c \<longleftrightarrow> c \<in> {''en'', ''tr'', ''ar'', ''it''}"
  by (auto simp: registered_def SUPPORTED_LANGUAGES_def)

lemma registered_truthy:
  assumes "registered c"
  shows "truthy (obj_get h SUPPORTED_LANGUAGES c)"
proof -
  from assms obtain v where v: "map_of SUPPORTED_LANGUAGES c = Some v"
    by (auto simp: registered_def)
  then have "(c, v) \<in> set SUPPORTED_LANGUAGES"
    by (rule map_of_SomeD)
  then have "truthy v"
    by (auto simp: SUPPORTED_LANGUAGES_def)
  with v show ?thesis
    by (simp add: obj_get_def)
qed

lemma registered_not_empty: "registered c \<Longrightarrow> c \<noteq> []"
  by (auto simp: registered_codes)

text \<open>
  The guard reads the property \<open>c\<close> of the registry. It lets a registered code through, and
  it stops a code that the registry neither has nor inherits.
\<close>

lemma switchLanguage_registered: "registered c \<Longrightarrow> switchLanguage h c current = c"
  by (simp add: switchLanguage_def registered_truthy)

lemma switchLanguage_unknown:
  "\<not> registered c \<Longrightarrow> \<not> truthy (h (JObj SUPPORTED_LANGUAGES) c)
   \<Longrightarrow> switchLanguage h c current = current"
  by (simp add: switchLanguage_def obj_get_def registered_def)

lemma guard_without_inheritance:
  assumes "\<forall>k. \<not> registered k \<longrightarrow> \<not> truthy (h (JObj SUPPORTED_LANGUAGES) k)"
  shows "truthy (obj_get h SUPPORTED_LANGUAGES c) = registered c"
proof (cases "registered c")
  case True
  then show ?thesis by (simp add: registered_truthy)
next
  case False
  with assms have "\<not> truthy (h (JObj SUPPORTED_LANGUAGES) c)"
    by simp
  with False show ?thesis
    by (simp add: obj_get_def registered_def)
qed

text \<open>
  C4 at the code \<^verbatim>\<open>constructor\<close>, which is no key of the registry: the registry inherits a
  property of that name from \<^verbatim>\<open>Object.prototype\<close>, the guard finds it truthy, and
  \<^verbatim>\<open>switchLanguage('constructor')\<close> sets the active code to \<^verbatim>\<open>constructor\<close> where the claim has a
  silent no-op.
\<close>

theorem switchLanguage_inherited_key:
  "\<not> registered ''constructor''
   \<and> switchLanguage ecma_host ''constructor'' ''en'' = ''constructor''"
  by (simp add: switchLanguage_def registered_def SUPPORTED_LANGUAGES_def obj_get_def ecma_host_def
      object_prototype_def)

section \<open>Initialisation\<close>

lemma split_on_first_piece: "hd (split_on CHR ''-'' ''en-US'') = ''en''"
  by simp

lemma initialLanguage_scenarios:
  "initialLanguage ecma_host None ''tr-TR'' = ''tr''
   \<and> initialLanguage ecma_host None ''de-DE'' = ''en''
   \<and> initialLanguage ecma_host (Some ''it'') ''tr-TR'' = ''it''
   \<and> initialLanguage ecma_host (Some ''xx'') ''ar'' = ''ar''"
  by (simp add: initialLanguage_def SUPPORTED_LANGUAGES_def DEFAULT_LANGUAGE_def obj_get_def
      ecma_host_def object_prototype_def)

text \<open>
  C5 at the persisted value \<^verbatim>\<open>valueOf\<close> with the browser language \<^verbatim>\<open>tr-TR\<close>: the persisted
  value is no registered code, and the initialisation adopts it all the same, where the
  claim has it go on to the browser language and adopt \<^verbatim>\<open>tr\<close>.
\<close>

theorem initialLanguage_inherited_key:
  "\<not> registered ''valueOf''
   \<and> initialLanguage ecma_host (Some ''valueOf'') ''tr-TR'' = ''valueOf''"
  by (simp add: initialLanguage_def registered_def SUPPORTED_LANGUAGES_def obj_get_def ecma_host_def
      object_prototype_def)

text \<open>
  On a host where the registry inherits nothing truthy, the initialisation follows the
  precedence: the persisted code when registered, else the primary subtag of the browser
  language when registered, else the default.
\<close>

lemma initialLanguage_precedence:
  assumes "\<forall>k. \<not> registered k \<longrightarrow> \<not> truthy (h (JObj SUPPORTED_LANGUAGES) k)"
  shows "initialLanguage h saved browser =
           (let subtag = hd (split_on CHR ''-'' browser);
                fromBrowser = (if registered subtag then subtag else ''en'')
            in case saved of
                 None \<Rightarrow> fromBrowser
               | Some c \<Rightarrow> if registered c then c else fromBrowser)"
proof -
  have g: "\<And>c. truthy (obj_get h SUPPORTED_LANGUAGES c) = registered c"
    using assms by (simp add: guard_without_inheritance)
  show ?thesis
    by (auto simp: initialLanguage_def Let_def g DEFAULT_LANGUAGE_def registered_not_empty
        split: option.splits)
qed

section \<open>Sessions\<close>

text \<open>On such a host the active code of a session is a registered code at every moment.\<close>

lemma initialLanguage_registered:
  assumes "\<forall>k. \<not> registered k \<longrightarrow> \<not> truthy (h (JObj SUPPORTED_LANGUAGES) k)"
  shows "registered (initialLanguage h saved browser)"
proof -
  have "registered ''en''"
    by (simp add: registered_codes)
  then show ?thesis
    using initialLanguage_precedence [of h saved browser] assms
    by (simp add: Let_def split: option.splits)
qed

lemma switch_registered:
  assumes "\<forall>k. \<not> registered k \<longrightarrow> \<not> truthy (h (JObj SUPPORTED_LANGUAGES) k)"
    and "registered (currentLanguage p)"
  shows "registered (currentLanguage (switch h c p))"
  using assms(2) guard_without_inheritance [of h c] assms(1)
  by (simp add: switch_def update_def switchLanguage_def persist_def Let_def)

lemma session_registered:
  assumes "\<forall>k. \<not> registered k \<longrightarrow> \<not> truthy (h (JObj SUPPORTED_LANGUAGES) k)"
  shows "registered (currentLanguage (session h browser p codes))"
proof -
  have "registered (currentLanguage q)
        \<Longrightarrow> registered (currentLanguage (foldl (\<lambda>q c. switch h c q) q codes))" for q
    using assms by (induction codes arbitrary: q) (simp_all add: switch_registered)
  moreover have "registered (currentLanguage (mount h browser p))"
    using assms by (simp add: mount_def first_render_def persist_def initialLanguage_registered)
  ultimately show ?thesis
    by (simp add: session_def)
qed


text \<open>
  C9 at a session that starts with the browser language \<^verbatim>\<open>en-US\<close> and nothing stored, and
  calls \<^verbatim>\<open>switchLanguage('tr')\<close> and \<^verbatim>\<open>switchLanguage('toString')\<close>: the active code at the end
  is \<^verbatim>\<open>toString\<close>, which is no key of the registry.
\<close>

theorem session_inherited_key:
  "\<not> registered ''toString''
   \<and> currentLanguage (session ecma_host ''en-US'' fresh [''tr'', ''toString'']) = ''toString''"
  by (simp add: session_def mount_def first_render_def switch_def update_def persist_def fresh_def
      switchLanguage_def initialLanguage_def registered_def SUPPORTED_LANGUAGES_def obj_get_def
      ecma_host_def object_prototype_def Let_def)

lemma applied_persist: "applied (persist p)"
  by (simp add: applied_def persist_def)

lemma applied_switch: "applied p \<Longrightarrow> applied (switch h c p)"
  by (simp add: switch_def Let_def applied_persist)

lemma applied_foldl: "applied p \<Longrightarrow> applied (foldl (\<lambda>q c. switch h c q) p codes)"
  by (induction codes arbitrary: p) (simp_all add: applied_switch)

lemma applied_session: "applied (session h browser p codes)"
  unfolding session_def mount_def by (rule applied_foldl) (rule applied_persist)

lemma persist_state: "currentLanguage (persist p) = currentLanguage p"
  by (simp add: persist_def)

lemma switch_state: "currentLanguage (switch h c p) = switchLanguage h c (currentLanguage p)"
  by (simp add: switch_def update_def Let_def persist_state)

lemma foldl_switch_state:
  "currentLanguage (foldl (\<lambda>q c. switch h c q) p codes)
   = foldl (\<lambda>current c. switchLanguage h c current) (currentLanguage p) codes"
  by (induction codes arbitrary: p) (simp_all add: switch_state)

lemma session_state:
  "currentLanguage (session h browser p codes)
   = foldl (\<lambda>current c. switchLanguage h c current)
       (initialLanguage h (localStorage p STORAGE_KEY) browser) codes"
  by (simp add: session_def foldl_switch_state mount_def first_render_def persist_state)

lemma session_last:
  "registered c \<Longrightarrow> currentLanguage (session h browser p (codes @ [c])) = c"
  by (simp add: session_state switchLanguage_registered)

text \<open>
  C8, as stated, at a switch to Arabic after a first visit with the browser language
  \<^verbatim>\<open>en-US\<close>: when the state has changed to \<^verbatim>\<open>ar\<close> and the effect has not run yet, the
  direction is still \<^verbatim>\<open>ltr\<close>, and the language attribute and the stored code are still \<^verbatim>\<open>en\<close>.
  The side effects do not come with the state change but with the effect after it.
\<close>

theorem effects_pending_counterexample:
  "currentLanguage (update ecma_host ''ar'' (mount ecma_host ''en-US'' fresh)) = ''ar''
   \<and> dir (update ecma_host ''ar'' (mount ecma_host ''en-US'' fresh)) = ''ltr''
   \<and> lang (update ecma_host ''ar'' (mount ecma_host ''en-US'' fresh)) = ''en''
   \<and> localStorage (update ecma_host ''ar'' (mount ecma_host ''en-US'' fresh)) STORAGE_KEY
       = Some ''en''"
  by (simp add: update_def mount_def first_render_def persist_def fresh_def switchLanguage_def
      initialLanguage_def SUPPORTED_LANGUAGES_def DEFAULT_LANGUAGE_def obj_get_def ecma_host_def
      object_prototype_def Let_def)

text \<open>
  C8, amended: after the first render and after every call of \<^verbatim>\<open>switchLanguage\<close> that follows,
  once React has run the effect that the change of the state brings, the active code is
  the one that the initialisation and the guarded calls have set, the storage holds it under
  the key \<^verbatim>\<open>preferred-language\<close>, the language attribute of the document is the active code,
  and the direction of the document is \<^verbatim>\<open>rtl\<close> when the active code is \<^verbatim>\<open>ar\<close> and \<^verbatim>\<open>ltr\<close> when
  it is any other. So a switch to \<^verbatim>\<open>ar\<close> leaves the direction \<^verbatim>\<open>rtl\<close>, and a switch to any
  other registered code leaves it \<^verbatim>\<open>ltr\<close>.
\<close>

theorem effects_after_every_change:
  "STORAGE_KEY = ''preferred-language''
   \<and> currentLanguage (session h browser p codes)
       = foldl (\<lambda>current c. switchLanguage h c current)
           (initialLanguage h (localStorage p STORAGE_KEY) browser) codes
   \<and> localStorage (session h browser p codes) ''preferred-language''
       = Some (currentLanguage (session h browser p codes))
   \<and> lang (session h browser p codes) = currentLanguage (session h browser p codes)
   \<and> dir (session h browser p codes)
       = (if currentLanguage (session h browser p codes) = ''ar'' then ''rtl'' else ''ltr'')
   \<and> currentLanguage (session h browser p (codes @ [''ar''])) = ''ar''
   \<and> dir (session h browser p (codes @ [''ar''])) = ''rtl''
   \<and> (registered c \<and> c \<noteq> ''ar''
        \<longrightarrow> currentLanguage (session h browser p (codes @ [c])) = c
            \<and> dir (session h browser p (codes @ [c])) = ''ltr'')"
proof -
  have ar: "registered ''ar''"
    by (simp add: registered_codes)
  have a: "\<And>cs. applied (session h browser p cs)"
    by (rule applied_session)
  have d: "\<And>cs. dir (session h browser p cs)
             = (if currentLanguage (session h browser p cs) = ''ar'' then ''rtl'' else ''ltr'')"
    using a by (simp add: applied_def)
  have "dir (session h browser p (codes @ [''ar''])) = ''rtl''"
    using d [of "codes @ [''ar'']"] session_last [OF ar, of h browser p codes] by simp
  moreover have "registered c \<and> c \<noteq> ''ar''
        \<longrightarrow> currentLanguage (session h browser p (codes @ [c])) = c
            \<and> dir (session h browser p (codes @ [c])) = ''ltr''"
    using d [of "codes @ [c]"] session_last [of c h browser p codes] by simp
  ultimately show ?thesis
    using a [of codes] session_state [of h browser p codes] session_last [OF ar, of h browser p codes]
    by (simp add: applied_def STORAGE_KEY_def)
qed

theorem effects_after_every_change_witness:
  "currentLanguage (session ecma_host ''en-US'' fresh [''ar'', ''tr'']) = ''tr''
   \<and> dir (session ecma_host ''en-US'' fresh [''ar'', ''tr'']) = ''ltr''
   \<and> localStorage (session ecma_host ''en-US'' fresh [''ar'', ''tr'']) ''preferred-language''
       = Some ''tr''"
proof -
  have r: "registered ''tr''"
    by (simp add: registered_codes)
  have "currentLanguage (session ecma_host ''en-US'' fresh ([''ar''] @ [''tr''])) = ''tr''
        \<and> dir (session ecma_host ''en-US'' fresh ([''ar''] @ [''tr''])) = ''ltr''"
    using effects_after_every_change [of ecma_host "''en-US''" fresh "[''ar'']" "''tr''"] r
    by blast
  moreover have "localStorage (session ecma_host ''en-US'' fresh [''ar'', ''tr'']) ''preferred-language''
        = Some (currentLanguage (session ecma_host ''en-US'' fresh [''ar'', ''tr'']))"
    using effects_after_every_change [of ecma_host "''en-US''" fresh "[''ar'', ''tr'']" "''tr''"]
    by blast
  ultimately show ?thesis
    by simp
qed

text \<open>
  C10: when a registered code \<open>c\<close> is the active code and the effect has stored it, an
  initialisation that reads the storage adopts \<open>c\<close>, whatever the browser language is.
\<close>

theorem persist_then_initialise:
  assumes "registered c"
  shows "initialLanguage h (localStorage (persist (p\<lparr>currentLanguage := c\<rparr>)) STORAGE_KEY) browser = c
         \<and> currentLanguage (mount h browser (persist (p\<lparr>currentLanguage := c\<rparr>))) = c"
proof -
  have "initialLanguage h (Some c) browser = c"
    using registered_truthy [OF assms] registered_not_empty [OF assms]
    by (simp add: initialLanguage_def Let_def)
  then show ?thesis
    by (simp add: mount_def first_render_def persist_def)
qed

theorem persist_then_initialise_witness:
  "currentLanguage (mount ecma_host ''en-US'' (persist (fresh\<lparr>currentLanguage := ''tr''\<rparr>))) = ''tr''"
proof -
  have r: "registered ''tr''"
    by (simp add: registered_def SUPPORTED_LANGUAGES_def)
  show ?thesis
    using persist_then_initialise [OF r, of ecma_host fresh "''en-US''"] by simp
qed

end
